theory Spec2Isabelle
  imports Main "HOL-Library.AList" "HOL-Library.Char_ord" "HOL-Library.List_Lexorder"
begin

section \<open>Values, errors and containers of logic.py\<close>

text \<open>
  Every element of a token list, of the evaluation stack and of a truth-table row is a
  Python string (\<open>'OPAREN'\<close>, \<open>'AND'\<close>, a variable name, \<open>'True'\<close>, \<open>'False'\<close>) or
  \<open>None\<close>, which the operator tables return when they fall through all their branches.
\<close>

datatype pyval = Str string | PyNone

text \<open>The exceptions the module can raise.\<close>

datatype pyerr = IndexError | KeyError | RuntimeError | TypeError

text \<open>
  The dictionary \<open>vars\<close> (name to \<open>'True'\<close>/\<open>'False'\<close>) is an association list with
  distinct keys; \<open>vars[k]\<close> raises KeyError on a missing key, \<open>vars[k] = v\<close> overwrites
  or adds, \<open>len(vars)\<close> counts the keys.
\<close>

type_synonym dict = "(string \<times> string) list"

definition dict_get :: "dict \<Rightarrow> pyval \<Rightarrow> pyerr + string" where
  "dict_get d k = (case k of PyNone \<Rightarrow> Inl KeyError
     | Str n \<Rightarrow> (case map_of d n of None \<Rightarrow> Inl KeyError | Some v \<Rightarrow> Inr v))"

definition dict_set :: "dict \<Rightarrow> string \<Rightarrow> string \<Rightarrow> dict" where
  "dict_set d k v = AList.update k v d"

text \<open>
  Python list indexing: a negative index counts from the end, anything out of range
  raises IndexError.
\<close>

definition py_index :: "'a list \<Rightarrow> int \<Rightarrow> pyerr + 'a" where
  "py_index xs k =
     (let n = int (length xs); j = (if k < 0 then n + k else k)
      in if 0 \<le> j \<and> j < n then Inr (xs ! nat j) else Inl IndexError)"

definition py_setitem :: "'a list \<Rightarrow> int \<Rightarrow> 'a \<Rightarrow> pyerr + 'a list" where
  "py_setitem xs k v =
     (let n = int (length xs); j = (if k < 0 then n + k else k)
      in if 0 \<le> j \<and> j < n then Inr (xs[nat j := v]) else Inl IndexError)"

definition py_del :: "'a list \<Rightarrow> nat \<Rightarrow> pyerr + 'a list" where
  "py_del xs k = (if k < length xs then Inr (take k xs @ drop (Suc k) xs) else Inl IndexError)"

section \<open>Constants\<close>

definition tok_list :: "string list" where
  "tok_list = [''OPAREN'', ''CPAREN'', ''AND'', ''OR'', ''NOT'', ''IFTHEN'', ''IFF'']"

definition bin_list :: "string list" where
  "bin_list = [''AND'', ''OR'', ''IFTHEN'', ''IFF'']"

definition operators :: string where
  "operators = ''()&|!<->''"

definition in_bin_list :: "pyval \<Rightarrow> bool" where
  "in_bin_list t = (case t of PyNone \<Rightarrow> False | Str n \<Rightarrow> n \<in> set bin_list)"

section \<open>get\_bit\<close>

function get_bits :: "int \<Rightarrow> string list \<Rightarrow> string list" where
  "get_bits x bits =
     (if x > 0
      then get_bits (x div 2) (bits @ [if x mod 2 = 0 then ''False'' else ''True''])
      else bits)"
  by pat_completeness auto
termination
  by (relation "measure (\<lambda>(x, bits). nat x)") auto

declare get_bits.simps [simp del]

text \<open>The bit number \<open>c\<close> is the loop counter \<open>j\<close> of \<open>truthtable\<close>, never negative.\<close>

definition get_bit :: "int \<Rightarrow> nat \<Rightarrow> string" where
  "get_bit x c =
     (let bits = get_bits x []
      in if int c > int (length bits) - 1 then ''False'' else bits ! c)"

section \<open>The operator tables\<close>

definition eval_and_op :: "string \<Rightarrow> string \<Rightarrow> pyval" where
  "eval_and_op lval rval =
     (if lval = ''False'' \<and> rval = ''False'' then Str ''False''
      else if lval = ''False'' \<and> rval = ''True'' then Str ''False''
      else if lval = ''True'' \<and> rval = ''False'' then Str ''False''
      else if lval = ''True'' \<and> rval = ''True'' then Str ''True''
      else PyNone)"

definition eval_or_op :: "string \<Rightarrow> string \<Rightarrow> pyval" where
  "eval_or_op lval rval =
     (if lval = ''False'' \<and> rval = ''False'' then Str ''False''
      else if lval = ''False'' \<and> rval = ''True'' then Str ''True''
      else if lval = ''True'' \<and> rval = ''False'' then Str ''True''
      else if lval = ''True'' \<and> rval = ''True'' then Str ''True''
      else PyNone)"

definition eval_ifthen_op :: "string \<Rightarrow> string \<Rightarrow> pyval" where
  "eval_ifthen_op lval rval =
     (if lval = ''False'' \<and> rval = ''False'' then Str ''True''
      else if lval = ''False'' \<and> rval = ''True'' then Str ''True''
      else if lval = ''True'' \<and> rval = ''False'' then Str ''False''
      else if lval = ''True'' \<and> rval = ''True'' then Str ''True''
      else PyNone)"

definition eval_iff_op :: "string \<Rightarrow> string \<Rightarrow> pyval" where
  "eval_iff_op lval rval =
     (if lval = ''False'' \<and> rval = ''False'' then Str ''True''
      else if lval = ''False'' \<and> rval = ''True'' then Str ''False''
      else if lval = ''True'' \<and> rval = ''False'' then Str ''False''
      else if lval = ''True'' \<and> rval = ''True'' then Str ''True''
      else PyNone)"

section \<open>The interpreter's recursion limit\<close>

text \<open>
  Every call of a Python function takes one frame of the interpreter's stack, and a call
  that would exceed the recursion limit raises RuntimeError (\<open>maximum recursion depth
  exceeded\<close>). \<open>reduce_bins\<close> calls itself once for every operator it reduces, so its
  depth grows with its input. The functions below \<open>eval\<close> therefore carry the number
  \<open>d\<close> of frames that are still free while their own frame is on the stack: a call made
  with \<open>d = 0\<close> raises RuntimeError, any other call runs its callee with \<open>d - 1\<close>.
  \<open>recursion_limit\<close> is \<open>sys.getrecursionlimit()\<close> of a fresh interpreter.
\<close>

definition recursion_limit :: nat where
  "recursion_limit = 1000"

text \<open>
  \<open>eval_bin_op(args)\<close> with \<open>args = [a0, a1, a2]\<close>: a literal \<open>'False'\<close>/\<open>'True'\<close> operand
  is used as it is, any other operand is looked up in \<open>vars\<close>; then the table of the
  operator is called, which takes a frame.
\<close>

definition eval_bin_op :: "nat \<Rightarrow> dict \<Rightarrow> pyval \<Rightarrow> pyval \<Rightarrow> pyval \<Rightarrow> pyerr + pyval" where
  "eval_bin_op d vars a0 a1 a2 =
     (case (if a0 = Str ''False'' then Inr ''False''
            else if a0 = Str ''True'' then Inr ''True''
            else dict_get vars a0) of
        Inl e \<Rightarrow> Inl e
      | Inr lval \<Rightarrow>
         (case (if a2 = Str ''False'' then Inr ''False''
                else if a2 = Str ''True'' then Inr ''True''
                else dict_get vars a2) of
            Inl e \<Rightarrow> Inl e
          | Inr rval \<Rightarrow>
              (if a1 = Str ''AND''
               then (if d = 0 then Inl RuntimeError else Inr (eval_and_op lval rval))
               else if a1 = Str ''OR''
               then (if d = 0 then Inl RuntimeError else Inr (eval_or_op lval rval))
               else if a1 = Str ''IFTHEN''
               then (if d = 0 then Inl RuntimeError else Inr (eval_ifthen_op lval rval))
               else if a1 = Str ''IFF''
               then (if d = 0 then Inl RuntimeError else Inr (eval_iff_op lval rval))
               else Inr PyNone)))"

text \<open>\<open>eval_mon_op(args)\<close> with \<open>args = ['NOT', a1]\<close>; it calls no function.\<close>

definition eval_mon_op :: "dict \<Rightarrow> pyval \<Rightarrow> pyerr + pyval" where
  "eval_mon_op vars a1 =
     (case (if a1 \<noteq> Str ''True'' \<and> a1 \<noteq> Str ''False'' then dict_get vars a1
            else Inr (case a1 of Str n \<Rightarrow> n | PyNone \<Rightarrow> [])) of
        Inl e \<Rightarrow> Inl e
      | Inr val \<Rightarrow> (if val = ''True'' then Inr (Str ''False'') else Inr (Str ''True'')))"

section \<open>Reduction of a parenthesis-free run\<close>

text \<open>
  \<open>reduce_monos\<close>: one sweep with the index \<open>i\<close>; the list is mutated in place, so the
  model passes it along and returns it. The call of \<open>eval_mon_op\<close> takes a frame.
\<close>

function reduce_monos_from :: "nat \<Rightarrow> dict \<Rightarrow> nat \<Rightarrow> pyval list \<Rightarrow> pyerr + pyval list" where
  "reduce_monos_from d vars i lrtoks =
     (if i < length lrtoks then
        (if lrtoks ! i = Str ''NOT'' then
           (case py_index lrtoks (int i + 1) of
              Inl e \<Rightarrow> Inl e
            | Inr a1 \<Rightarrow>
               (if d = 0 then Inl RuntimeError
                else
                  (case eval_mon_op vars a1 of
                     Inl e \<Rightarrow> Inl e
                   | Inr v \<Rightarrow>
                       reduce_monos_from d vars (i + 1)
                         (take (i + 1) (lrtoks[i := v]) @ drop (i + 2) (lrtoks[i := v])))))
         else reduce_monos_from d vars (i + 1) lrtoks)
      else Inr lrtoks)"
  by pat_completeness auto
termination
  by (relation "measure (\<lambda>(d, vars, i, lrtoks). length lrtoks - i)")
     (auto simp: py_index_def Let_def split: if_splits)

declare reduce_monos_from.simps [simp del]

definition reduce_monos :: "nat \<Rightarrow> dict \<Rightarrow> pyval list \<Rightarrow> pyerr + pyval list" where
  "reduce_monos d vars lrtoks = reduce_monos_from d vars 0 lrtoks"

text \<open>
  \<open>reduce_bins\<close>: the \<open>while\<close> loop with index \<open>i\<close>; after rewriting the three elements
  around a binary operator into one it calls itself on the same list, then goes on with
  \<open>i + 1\<close> on whatever the inner call left. \<open>lrtoks[i - 1]\<close> with \<open>i = 0\<close> is Python's
  index \<open>-1\<close>, the last element. Both the call of \<open>eval_bin_op\<close> and the call of
  \<open>reduce_bins\<close> itself take a frame; once \<open>eval_bin_op\<close> has been called the inner call
  finds \<open>d > 0\<close> as well, and runs with \<open>d - 1\<close>.
\<close>

function (domintros) reduce_bins_from ::
  "nat \<Rightarrow> dict \<Rightarrow> nat \<Rightarrow> pyval list \<Rightarrow> pyerr + pyval list" where
  "reduce_bins_from d vars i lrtoks =
     (if i < length lrtoks then
        (if in_bin_list (lrtoks ! i) then
           (case py_index lrtoks (int i - 1) of
              Inl e \<Rightarrow> Inl e
            | Inr a0 \<Rightarrow>
               (case py_index lrtoks (int i + 1) of
                  Inl e \<Rightarrow> Inl e
                | Inr a2 \<Rightarrow>
                   (if d = 0 then Inl RuntimeError
                    else
                      (case eval_bin_op (d - 1) vars a0 (lrtoks ! i) a2 of
                         Inl e \<Rightarrow> Inl e
                       | Inr v \<Rightarrow>
                          (case py_setitem lrtoks (int i - 1) v of
                             Inl e \<Rightarrow> Inl e
                           | Inr l1 \<Rightarrow>
                              (case py_del l1 i of
                                 Inl e \<Rightarrow> Inl e
                               | Inr l2 \<Rightarrow>
                                  (case py_del l2 i of
                                     Inl e \<Rightarrow> Inl e
                                   | Inr l3 \<Rightarrow>
                                      (case reduce_bins_from (d - 1) vars 0 l3 of
                                         Inl e \<Rightarrow> Inl e
                                       | Inr l4 \<Rightarrow> reduce_bins_from d vars (i + 1) l4))))))))
         else reduce_bins_from d vars (i + 1) lrtoks)
      else Inr lrtoks)"
  by pat_completeness auto

lemma py_setitem_length: "py_setitem xs k v = Inr ys \<Longrightarrow> length ys = length xs"
  by (auto simp: py_setitem_def Let_def split: if_splits)

lemma py_del_length: "py_del xs k = Inr ys \<Longrightarrow> Suc (length ys) = length xs"
  by (auto simp: py_del_def split: if_splits)

lemma reduce_bins_from_shrinks:
  "reduce_bins_from_dom (d, vars, i, lrtoks) \<Longrightarrow> reduce_bins_from d vars i lrtoks = Inr r
     \<Longrightarrow> length r \<le> length lrtoks"
proof (induction d vars i lrtoks arbitrary: r rule: reduce_bins_from.pinduct)
  case (1 d vars i lrtoks)
  show ?case
  proof (cases "i < length lrtoks")
    case False
    with "1.prems" "1.hyps" show ?thesis
      by (simp add: reduce_bins_from.psimps)
  next
    case inb: True
    show ?thesis
    proof (cases "in_bin_list (lrtoks ! i)")
      case False
      with inb "1.prems" "1.hyps" have "reduce_bins_from d vars (i + 1) lrtoks = Inr r"
        by (simp add: reduce_bins_from.psimps)
      with "1.IH"(3) [OF inb False] show ?thesis by simp
    next
      case True
      from "1.prems" "1.hyps" inb True obtain a0 a2 v l1 l2 l3 l4 where
        d: "d \<noteq> 0" and
        a0: "py_index lrtoks (int i - 1) = Inr a0" and
        a2: "py_index lrtoks (int i + 1) = Inr a2" and
        v: "eval_bin_op (d - 1) vars a0 (lrtoks ! i) a2 = Inr v" and
        l1: "py_setitem lrtoks (int i - 1) v = Inr l1" and
        l2: "py_del l1 i = Inr l2" and
        l3: "py_del l2 i = Inr l3" and
        l4: "reduce_bins_from (d - 1) vars 0 l3 = Inr l4" and
        r: "reduce_bins_from d vars (i + 1) l4 = Inr r"
        by (auto simp: reduce_bins_from.psimps split: sum.splits if_splits)
      have "length l4 \<le> length l3"
        using "1.IH"(1) [OF inb True a0 a2 d v l1 l2 l3 l4] .
      moreover have "length r \<le> length l4"
        using "1.IH"(2) [OF inb True a0 a2 d v l1 l2 l3 l4 r] .
      moreover have "length l3 \<le> length lrtoks"
        using py_setitem_length [OF l1] py_del_length [OF l2] py_del_length [OF l3] by simp
      ultimately show ?thesis by simp
    qed
  qed
qed

termination reduce_bins_from
proof (relation "measures [\<lambda>(d, vars, i, lrtoks). length lrtoks,
                           \<lambda>(d, vars, i, lrtoks). length lrtoks - i]",
    goal_cases)
  case 1
  show ?case by simp
next
  case (2 d vars i lrtoks a0 a2 v l1 l2 l3)
  then show ?case
    using py_setitem_length [of lrtoks "int i - 1" v l1] py_del_length [of l1 i l2]
      py_del_length [of l2 i l3]
    by simp
next
  case (3 d vars i lrtoks a0 a2 v l1 l2 l3 l4)
  then have "length l4 \<le> length l3"
    using reduce_bins_from_shrinks by blast
  with 3 show ?case
    using py_setitem_length [of lrtoks "int i - 1" v l1] py_del_length [of l1 i l2]
      py_del_length [of l2 i l3]
    by simp
next
  case (4 d vars i lrtoks)
  then show ?case by simp
qed

declare reduce_bins_from.simps [simp del]

definition reduce_bins :: "nat \<Rightarrow> dict \<Rightarrow> pyval list \<Rightarrow> pyerr + pyval list" where
  "reduce_bins d vars lrtoks = reduce_bins_from d vars 0 lrtoks"

text \<open>
  \<open>eval_ltor_toks\<close>: the monotonic operators first, then the binary ones, each a call
  that takes a frame; more than one element left is a RuntimeError, none left makes
  \<open>lrtoks[0]\<close> an IndexError.
\<close>

definition eval_ltor_toks :: "nat \<Rightarrow> dict \<Rightarrow> pyval list \<Rightarrow> pyerr + pyval" where
  "eval_ltor_toks d vars lrtoks =
     (if d = 0 then Inl RuntimeError
      else
        (case reduce_monos (d - 1) vars lrtoks of
           Inl e \<Rightarrow> Inl e
         | Inr l1 \<Rightarrow>
            (case reduce_bins (d - 1) vars l1 of
               Inl e \<Rightarrow> Inl e
             | Inr l2 \<Rightarrow>
                 (if length l2 > 1 then Inl RuntimeError else py_index l2 0))))"

section \<open>eval: the parenthesis reducer\<close>

text \<open>
  The inner \<open>while\<close> of \<open>eval\<close>: pop into \<open>lrtoks\<close> (at its front) until the popped
  element is \<open>'OPAREN'\<close>; popping the empty stack raises IndexError. The stack is a
  Python list, its top is the last element.
\<close>

function pop_to_oparen ::
  "pyval \<Rightarrow> pyval list \<Rightarrow> pyval list \<Rightarrow> pyerr + (pyval list \<times> pyval list)" where
  "pop_to_oparen tok stack lrtoks =
     (if tok \<noteq> Str ''OPAREN'' then
        (if stack = [] then Inl IndexError
         else pop_to_oparen (last stack) (butlast stack) (last stack # lrtoks))
      else Inr (stack, lrtoks))"
  by pat_completeness auto
termination
  by (relation "measure (\<lambda>(tok, stack, lrtoks). length stack)") auto

declare pop_to_oparen.simps [simp del]

text \<open>
  The \<open>for tok in toks\<close> loop; \<open>lrtoks[1:-1]\<close> is \<open>butlast (tl lrtoks)\<close>. When a
  script calls \<open>statement\<close> or \<open>truthtable\<close> at its top level, four frames are on the
  stack while \<open>eval_ltor_toks\<close> runs: the script's, the method's, the one of \<open>eval\<close>
  and its own; the others are free.
\<close>

fun eval_loop :: "dict \<Rightarrow> pyval list \<Rightarrow> pyval list \<Rightarrow> pyerr + pyval list" where
  "eval_loop vars [] stack = Inr stack"
| "eval_loop vars (tok # toks) stack =
     (if tok = Str ''CPAREN'' then
        (case pop_to_oparen tok (stack @ [tok]) [] of
           Inl e \<Rightarrow> Inl e
         | Inr (stack', lrtoks) \<Rightarrow>
            (case eval_ltor_toks (recursion_limit - 4) vars (butlast (tl lrtoks)) of
               Inl e \<Rightarrow> Inl e
             | Inr v \<Rightarrow> eval_loop vars toks (stack' @ [v])))
      else eval_loop vars toks (stack @ [tok]))"

text \<open>\<open>eval\<close> reads the global \<open>vars\<close>; the model takes it as an argument.\<close>

definition eval :: "dict \<Rightarrow> pyval list \<Rightarrow> pyerr + pyval" where
  "eval vars toks =
     (case eval_loop vars toks [] of
        Inl e \<Rightarrow> Inl e
      | Inr stack \<Rightarrow> (if length stack > 1 then Inl RuntimeError else py_index stack 0))"

section \<open>tokenize\<close>

text \<open>
  The state of \<open>tokenize\<close>: the list object the caller passed, the list the local name
  \<open>toks\<close> refers to once \<open>toks = []\<close> has rebound it (\<open>None\<close> while it still is the
  caller's list), the globals \<open>vars\<close> and \<open>vars_order\<close>, and the lines printed.
\<close>

record tokstate =
  caller_toks :: "pyval list"
  rebound_toks :: "pyval list option"
  g_vars :: dict
  g_vars_order :: "string list"
  g_printed :: "string list"

definition toks_append :: "tokstate \<Rightarrow> string \<Rightarrow> tokstate" where
  "toks_append st tok =
     (case rebound_toks st of
        None \<Rightarrow> st\<lparr>caller_toks := caller_toks st @ [Str tok]\<rparr>
      | Some l \<Rightarrow> st\<lparr>rebound_toks := Some (l @ [Str tok])\<rparr>)"

text \<open>\<open>string.letters\<close> and \<open>string.digits\<close> of Python 2 in the default C locale.\<close>

definition letters :: string where
  "letters = ''abcdefghijklmnopqrstuvwxyzABCDEFGHIJKLMNOPQRSTUVWXYZ''"

definition digits :: string where
  "digits = ''0123456789''"

text \<open>The \<open>if\<close>/\<open>elif\<close> chain on \<open>s[i]\<close>: the token (empty when none matched) and \<open>skip\<close>.\<close>

definition scan_op :: "string \<Rightarrow> nat \<Rightarrow> string \<times> nat" where
  "scan_op s i =
     (if s ! i = CHR ''('' then (tok_list ! 0, 1)
      else if s ! i = CHR '')'' then (tok_list ! 1, 1)
      else if s ! i = CHR ''&'' then (tok_list ! 2, 1)
      else if s ! i = CHR ''|'' then (tok_list ! 3, 1)
      else if s ! i = CHR ''!'' then (tok_list ! 4, 1)
      else if take 2 (drop i s) = ''->'' then (tok_list ! 5, 2)
      else if take 3 (drop i s) = ''<->'' then (tok_list ! 6, 3)
      else ([], 1))"

text \<open>The inner \<open>while\<close> that collects a name.\<close>

function scan_name :: "string \<Rightarrow> nat \<Rightarrow> string \<Rightarrow> string \<times> nat" where
  "scan_name s i tok =
     (if i < length s \<and> s ! i \<notin> set operators \<and> s ! i \<noteq> CHR '' ''
      then scan_name s (i + 1) (tok @ [s ! i])
      else (tok, i))"
  by pat_completeness auto
termination
  by (relation "measure (\<lambda>(s, i, tok). length s - i)") auto

declare scan_name.simps [simp del]

definition name_valid :: "string \<Rightarrow> bool" where
  "name_valid tok =
     (if length tok > 0
      then hd tok \<in> set letters \<and>
           list_all (\<lambda>c. \<not> (c \<notin> set letters \<and> c \<notin> set digits \<and> c \<noteq> CHR ''_'')) tok
      else True)"

text \<open>
  The outer \<open>while(i < len(s))\<close>. Nothing bounds the number of its iterations, so the
  loop is a partial function: \<open>None\<close> is the run that never returns.
\<close>

partial_function (option) tokenize_loop :: "string \<Rightarrow> nat \<Rightarrow> tokstate \<Rightarrow> tokstate option" where
  "tokenize_loop s i st =
     (if i < length s then
        (if length (fst (scan_op s i)) > 0
         then tokenize_loop s (i + snd (scan_op s i)) (toks_append st (fst (scan_op s i)))
         else if s ! i = CHR '' '' then tokenize_loop s (i + 1) st
         else
           (if name_valid (fst (scan_name s i []))
            then tokenize_loop s (snd (scan_name s i []))
                   ((toks_append st (fst (scan_name s i [])))
                      \<lparr>g_vars := dict_set (g_vars st) (fst (scan_name s i [])) ''False'',
                       g_vars_order :=
                         (if fst (scan_name s i []) \<notin> set (g_vars_order st)
                          then g_vars_order st @ [fst (scan_name s i [])]
                          else g_vars_order st)\<rparr>)
            else tokenize_loop s (snd (scan_name s i []))
                   (st\<lparr>g_printed := g_printed st @ [''Invalid variable name:  '' @ fst (scan_name s i [])],
                       rebound_toks := Some []\<rparr>)))
      else Some (toks_append st ''CPAREN''))"

definition tokenize :: "string \<Rightarrow> tokstate \<Rightarrow> tokstate option" where
  "tokenize s st = tokenize_loop s 0 st"

section \<open>SymbolicLogic.statement\<close>

text \<open>
  A statement is the three-element list \<open>[toks, vars, vars_order]\<close>. What the methods
  return or accept is one of: a string, such a list, the empty list \<open>[]\<close> that
  \<open>statement\<close> returns for a malformed input, or anything else.
\<close>

record statement =
  s_toks :: "pyval list"
  s_vars :: dict
  s_order :: "string list"

datatype obj = OStr string | OList3 statement | OEmpty | OOther

text \<open>
  \<open>statement(s)\<close>: the lines printed and either the exception that leaves the method or
  the value returned; \<open>None\<close> when \<open>tokenize\<close> never returns. Only KeyError and
  RuntimeError are caught. The list handed to \<open>eval\<close> is the caller's own \<open>toks\<close>.
\<close>

definition statement :: "string \<Rightarrow> (string list \<times> (pyerr + obj)) option" where
  "statement s =
     (case tokenize s \<lparr>caller_toks = [Str ''OPAREN''], rebound_toks = None, g_vars = [],
                        g_vars_order = [], g_printed = []\<rparr> of
        None \<Rightarrow> None
      | Some ts \<Rightarrow>
         (case eval (g_vars ts) (caller_toks ts) of
            Inl e \<Rightarrow>
              (if e = KeyError \<or> e = RuntimeError
               then Some (g_printed ts @ [''Malformed Statement''], Inr OEmpty)
               else Some (g_printed ts, Inl e))
          | Inr v \<Rightarrow>
              Some (g_printed ts,
                    Inr (OList3 \<lparr>s_toks = caller_toks ts, s_vars = g_vars ts,
                                  s_order = g_vars_order ts\<rparr>))))"

section \<open>SymbolicLogic.truthtable\<close>

text \<open>The \<open>for key in keys\<close> loop of one row: \<open>vars[key] = bit\<close>, \<open>row.insert(0, bit)\<close>.\<close>

fun assign_keys :: "int \<Rightarrow> string list \<Rightarrow> nat \<Rightarrow> dict \<Rightarrow> pyval list \<Rightarrow> dict \<times> pyval list" where
  "assign_keys i [] j vars row = (vars, row)"
| "assign_keys i (key # keys) j vars row =
     assign_keys i keys (j + 1) (dict_set vars key (get_bit i j)) (Str (get_bit i j) # row)"

text \<open>The \<open>for i in range(start, end)\<close> loop; an exception of \<open>eval\<close> leaves the method.\<close>

fun table_rows ::
  "pyval list \<Rightarrow> string list \<Rightarrow> int list \<Rightarrow> dict \<Rightarrow> pyval list list
     \<Rightarrow> pyerr + (dict \<times> pyval list list)" where
  "table_rows toks keys [] vars table = Inr (vars, table)"
| "table_rows toks keys (i # is) vars table =
     (case eval (fst (assign_keys i keys 0 vars [])) toks of
        Inl e \<Rightarrow> Inl e
      | Inr v \<Rightarrow>
          table_rows toks keys is (fst (assign_keys i keys 0 vars []))
            (table @ [snd (assign_keys i keys 0 vars []) @ [v]]))"

text \<open>
  The table is \<open>[statement, row, row, ...]\<close>; its first element is the statement object
  itself, whose dictionary the rows have overwritten and whose \<open>vars_order\<close> list
  \<open>keys.reverse()\<close> has reversed in place (\<open>keys\<close> is the same list object).
\<close>

record table =
  t_statement :: statement
  t_rows :: "pyval list list"

definition truthtable :: "statement \<Rightarrow> int \<Rightarrow> int \<Rightarrow> pyerr + table" where
  "truthtable st start end =
     (let end' = (if end = - 1 then 2 ^ length (s_vars st) else end);
          keys = rev (s_order st)
      in case table_rows (s_toks st) keys [start..end' - 1] (s_vars st) [] of
           Inl e \<Rightarrow> Inl e
         | Inr (vars', rows) \<Rightarrow>
             Inr \<lparr>t_statement = st\<lparr>s_vars := vars', s_order := keys\<rparr>, t_rows = rows\<rparr>)"

section \<open>SymbolicLogic.combine\<close>

text \<open>
  The branch for two statements. \<open>statement3 = [['OPAREN'], x[1], x[2]]\<close> shares the
  dictionary and the order list of \<open>x\<close>: the keys of \<open>y\<close> are written into the dictionary
  of \<open>x\<close> and the names of \<open>y\<close> are appended to the order list of \<open>x\<close>, before
  \<open>statement3[2]\<close> is replaced by a new sorted list. The result is the new statement
  and \<open>x\<close> as the call leaves it.
\<close>

definition combine_lists :: "statement \<Rightarrow> statement \<Rightarrow> statement \<times> statement" where
  "combine_lists x y =
     (let toks3 = [Str ''OPAREN''] @ s_toks x @ [Str ''OR''] @ s_toks y @ [Str ''CPAREN''];
          vars3 = foldl (\<lambda>d (k, v). dict_set d k v) (s_vars x) (s_vars y);
          order_x = s_order x @ s_order y
      in (\<lparr>s_toks = toks3, s_vars = vars3, s_order = sort (remdups order_x)\<rparr>,
          x\<lparr>s_vars := vars3, s_order := order_x\<rparr>))"

definition combine_objs :: "obj \<Rightarrow> obj \<Rightarrow> pyerr + (obj \<times> obj)" where
  "combine_objs x y =
     (case (x, y) of
        (OList3 sx, OList3 sy) \<Rightarrow>
          Inr (OList3 (fst (combine_lists sx sy)), OList3 (snd (combine_lists sx sy)))
      | _ \<Rightarrow> Inl TypeError)"

text \<open>
  \<open>combine(statement1, statement2)\<close>: the lines printed, and the exception or the
  returned statement together with \<open>statement1\<close> as the call leaves it.
\<close>

definition combine :: "obj \<Rightarrow> obj \<Rightarrow> (string list \<times> (pyerr + (obj \<times> obj))) option" where
  "combine x y =
     (case (x, y) of
        (OList3 sx, OList3 sy) \<Rightarrow> Some ([], combine_objs x y)
      | (OStr a, OStr b) \<Rightarrow>
          (case statement (''('' @ a @ '')|('' @ b @ '')'') of
             None \<Rightarrow> None
           | Some (out, Inl e) \<Rightarrow> Some (out, Inl e)
           | Some (out, Inr z) \<Rightarrow> Some (out, Inr (z, x)))
      | (OList3 sx, OStr b) \<Rightarrow>
          (case statement b of
             None \<Rightarrow> None
           | Some (out, Inl e) \<Rightarrow> Some (out, Inl e)
           | Some (out, Inr y') \<Rightarrow> Some (out, combine_objs x y'))
      | (OStr a, OList3 sy) \<Rightarrow>
          (case statement a of
             None \<Rightarrow> None
           | Some (out, Inl e) \<Rightarrow> Some (out, Inl e)
           | Some (out, Inr x') \<Rightarrow>
               (case combine_objs x' y of
                  Inl e \<Rightarrow> Some (out, Inl e)
                | Inr (z, x'') \<Rightarrow> Some (out, Inr (z, x))))
      | _ \<Rightarrow> Some ([], Inl TypeError))"

declare tokenize_loop.simps [code]

section \<open>Reading a result as a truth value\<close>

text \<open>The two strings the module uses for the truth values.\<close>

definition bool_str :: "bool \<Rightarrow> string" where
  "bool_str b = (if b then ''True'' else ''False'')"

definition truth :: "bool \<Rightarrow> pyval" where
  "truth b = Str (bool_str b)"

section \<open>Truth table of a statement with two variables\<close>

lemma statement_a_and_b:
  "statement ''a&b'' =
     Some ([], Inr (OList3 \<lparr>s_toks = [Str ''OPAREN'', Str ''a'', Str ''AND'', Str ''b'', Str ''CPAREN''],
                             s_vars = [(''a'', ''False''), (''b'', ''False'')],
                             s_order = [''a'', ''b'']\<rparr>))"
  by code_simp

lemma truthtable_a_and_b:
  "truthtable \<lparr>s_toks = [Str ''OPAREN'', Str ''a'', Str ''AND'', Str ''b'', Str ''CPAREN''],
               s_vars = [(''a'', ''False''), (''b'', ''False'')],
               s_order = [''a'', ''b'']\<rparr> 0 (- 1) =
     Inr \<lparr>t_statement =
            \<lparr>s_toks = [Str ''OPAREN'', Str ''a'', Str ''AND'', Str ''b'', Str ''CPAREN''],
             s_vars = [(''a'', ''True''), (''b'', ''True'')],
             s_order = [''b'', ''a'']\<rparr>,
          t_rows = [[Str ''False'', Str ''False'', Str ''False''],
                    [Str ''False'', Str ''True'', Str ''False''],
                    [Str ''True'', Str ''False'', Str ''False''],
                    [Str ''True'', Str ''True'', Str ''True'']]\<rparr>"
  by code_simp

lemma assign_keys_b_a:
  "assign_keys i (rev [''a'', ''b'']) 0 [(''a'', ''False''), (''b'', ''False'')] [] =
     ([(''a'', get_bit i 1), (''b'', get_bit i 0)], [Str (get_bit i 1), Str (get_bit i 0)])"
  by (simp add: dict_set_def)

text \<open>
  C2. The full truth table of \<open>statement("a&b")\<close> (\<open>a\<close> found first, \<open>b\<close> second) has
  exactly the four rows of the assignment indices 0, 1, 2, 3 in that order; the columns
  for \<open>a\<close>, \<open>b\<close> are FF, FT, TF, TT and the results F, F, F, T. For every row index
  \<open>i\<close> the row loop gives \<open>b\<close>, the variable found last, bit 0 of \<open>i\<close> and \<open>a\<close>, the
  variable found first, the highest bit used (bit 1), and the row lists the value of
  \<open>a\<close> before the value of \<open>b\<close>.
\<close>

theorem C2_truthtable_a_and_b:
  "\<exists>st t. statement ''a&b'' = Some ([], Inr (OList3 st))
      \<and> s_order st = [''a'', ''b'']
      \<and> truthtable st 0 (- 1) = Inr t
      \<and> t_rows t = [[Str ''False'', Str ''False'', Str ''False''],
                     [Str ''False'', Str ''True'', Str ''False''],
                     [Str ''True'', Str ''False'', Str ''False''],
                     [Str ''True'', Str ''True'', Str ''True'']]
      \<and> (\<forall>i. map_of (fst (assign_keys i (rev (s_order st)) 0 (s_vars st) [])) ''b''
                  = Some (get_bit i 0)
             \<and> map_of (fst (assign_keys i (rev (s_order st)) 0 (s_vars st) [])) ''a''
                  = Some (get_bit i 1)
             \<and> snd (assign_keys i (rev (s_order st)) 0 (s_vars st) [])
                  = [Str (get_bit i 1), Str (get_bit i 0)])"
  using statement_a_and_b truthtable_a_and_b assign_keys_b_a by simp

section \<open>Invalid names\<close>

text \<open>
  C4. \<open>statement("3x & y")\<close> prints the one diagnostic for \<open>3x\<close> and goes on scanning
  (\<open>y\<close> is registered), but it does not fail: \<open>toks = []\<close> only rebinds the local name,
  the caller's list stays \<open>['OPAREN']\<close>, \<open>eval\<close> returns its single element without an
  exception, and the three-element statement is returned. Likewise
  \<open>statement("3fe & @q")\<close> prints a diagnostic for each of the two invalid names and
  returns a statement.
\<close>

theorem C4_invalid_name_returns_statement:
  "statement ''3x & y'' =
     Some ([''Invalid variable name:  3x''],
           Inr (OList3 \<lparr>s_toks = [Str ''OPAREN''], s_vars = [(''y'', ''False'')],
                         s_order = [''y'']\<rparr>))
   \<and> statement ''3fe & @q'' =
     Some ([''Invalid variable name:  3fe'', ''Invalid variable name:  @q''],
           Inr (OList3 \<lparr>s_toks = [Str ''OPAREN''], s_vars = [], s_order = []\<rparr>))"
  by code_simp

section \<open>A single variable\<close>

lemma statement_a:
  "statement ''a'' =
     Some ([], Inr (OList3 \<lparr>s_toks = [Str ''OPAREN'', Str ''a'', Str ''CPAREN''],
                             s_vars = [(''a'', ''False'')], s_order = [''a'']\<rparr>))"
  by code_simp

lemma eval_single_name:
  "eval vars [Str ''OPAREN'', Str ''a'', Str ''CPAREN''] = Inr (Str ''a'')"
  by (simp add: eval_def recursion_limit_def pop_to_oparen.simps eval_ltor_toks_def reduce_monos_def
      reduce_bins_def reduce_monos_from.simps reduce_bins_from.simps in_bin_list_def
      bin_list_def py_index_def)

text \<open>
  C5. For the one-variable expression \<open>a\<close>, \<open>eval\<close> returns the name \<open>'a'\<close> itself
  whatever value \<open>vars\<close> holds for it: a run of length one is never looked up. The truth
  table of the statement has the name in its result column.
\<close>

theorem C5_single_variable_yields_name:
  "\<exists>st. statement ''a'' = Some ([], Inr (OList3 st))
      \<and> (\<forall>x. eval (dict_set (s_vars st) ''a'' x) (s_toks st) = Inr (Str ''a''))
      \<and> map_sum id t_rows (truthtable st 0 (- 1))
          = Inr [[Str ''False'', Str ''a''], [Str ''True'', Str ''a'']]"
proof -
  have "map_sum id t_rows
          (truthtable \<lparr>s_toks = [Str ''OPAREN'', Str ''a'', Str ''CPAREN''],
                       s_vars = [(''a'', ''False'')], s_order = [''a'']\<rparr> 0 (- 1))
        = Inr [[Str ''False'', Str ''a''], [Str ''True'', Str ''a'']]"
    by code_simp
  with statement_a eval_single_name show ?thesis by simp
qed

section \<open>Unbalanced parentheses\<close>

text \<open>
  C8. \<open>statement("a&((b)")\<close> prints \<open>Malformed Statement\<close> and returns \<open>[]\<close>, but
  \<open>statement("a)")\<close>, whose parentheses are unbalanced too, pops the empty stack: the
  IndexError is not among the exceptions \<open>statement\<close> catches and leaves the method.
\<close>

theorem C8_unbalanced_raises_IndexError:
  "statement ''a&((b)'' = Some ([''Malformed Statement''], Inr OEmpty)
   \<and> statement ''a)'' = Some ([], Inl IndexError)"
  by code_simp

section \<open>Termination of tokenize\<close>

text \<open>
  A position where the scan cannot advance: the character is one of \<open>operators\<close> but
  starts no operator token (\<open><\<close>, \<open>-\<close> or \<open>>\<close> outside \<open>->\<close> and \<open><->\<close>).
\<close>

definition stuck_at :: "string \<Rightarrow> nat \<Rightarrow> bool" where
  "stuck_at s i = (i < length s \<and> fst (scan_op s i) = [] \<and> s ! i \<in> set operators)"

lemma stuck_at_step:
  assumes "stuck_at s i"
  shows "scan_name s i [] = ([], i)" and "s ! i \<noteq> CHR '' ''"
    and "\<not> 0 < length (fst (scan_op s i))"
  using assms by (auto simp: stuck_at_def scan_name.simps operators_def)

text \<open>
  At such a position the name loop collects nothing, the empty name counts as valid, is
  appended and registered, and the next iteration starts at the same position.
\<close>

lemma tokenize_loop_stuck:
  assumes "stuck_at s i"
  shows "tokenize_loop s i st = None"
proof (rule ccontr)
  assume "tokenize_loop s i st \<noteq> None"
  then obtain r where r: "tokenize_loop s i st = Some r" by auto
  have "\<not> stuck_at s i"
  proof (rule tokenize_loop.raw_induct [where P = "\<lambda>s i st r. \<not> stuck_at s i", OF _ r],
      goal_cases)
    case (1 f s i st r)
    show ?case
    proof
      assume si: "stuck_at s i"
      then have "i < length s" by (simp add: stuck_at_def)
      with 1(2) stuck_at_step [OF si] have "\<exists>st'. f s i st' = Some r"
        by (simp add: name_valid_def) blast
      then obtain st' where "f s i st' = Some r" ..
      from 1(1) [OF this] si show False by simp
    qed
  qed
  with assms show False by simp
qed

lemma statement_a_lt_b: "statement ''a<b'' = None"
proof -
  have "tokenize_loop ''a<b'' 0 st = None" for st
    apply (subst tokenize_loop.simps)
    apply (simp add: scan_op_def scan_name.simps operators_def name_valid_def letters_def
        digits_def tok_list_def)
    apply (simp add: tokenize_loop_stuck stuck_at_def scan_op_def operators_def)
    done
  then show ?thesis by (simp add: statement_def tokenize_def)
qed

text \<open>
  C9. \<open>tokenize\<close> does not return on the inputs \<open><\<close> and \<open>-\<close>, whatever the lists
  and globals it starts from, and \<open>statement("a<b")\<close> does not return either: at a
  \<open><\<close> or \<open>-\<close> that starts no operator the scan position never advances.
\<close>

theorem C9_tokenize_diverges:
  "tokenize ''<'' st = None \<and> tokenize ''-'' st = None \<and> statement ''a<b'' = None"
  by (simp add: statement_a_lt_b tokenize_def tokenize_loop_stuck stuck_at_def scan_op_def
      operators_def)

section \<open>Successive truth tables of one statement\<close>

lemma statement_a_ifthen_b:
  "statement ''a->b'' =
     Some ([], Inr (OList3 \<lparr>s_toks = [Str ''OPAREN'', Str ''a'', Str ''IFTHEN'', Str ''b'', Str ''CPAREN''],
                             s_vars = [(''a'', ''False''), (''b'', ''False'')],
                             s_order = [''a'', ''b'']\<rparr>))"
  by code_simp

lemma truthtable_a_ifthen_b_full:
  "truthtable \<lparr>s_toks = [Str ''OPAREN'', Str ''a'', Str ''IFTHEN'', Str ''b'', Str ''CPAREN''],
               s_vars = [(''a'', ''False''), (''b'', ''False'')],
               s_order = [''a'', ''b'']\<rparr> 0 (- 1) =
     Inr \<lparr>t_statement =
            \<lparr>s_toks = [Str ''OPAREN'', Str ''a'', Str ''IFTHEN'', Str ''b'', Str ''CPAREN''],
             s_vars = [(''a'', ''True''), (''b'', ''True'')],
             s_order = [''b'', ''a'']\<rparr>,
          t_rows = [[Str ''False'', Str ''False'', Str ''True''],
                    [Str ''False'', Str ''True'', Str ''True''],
                    [Str ''True'', Str ''False'', Str ''False''],
                    [Str ''True'', Str ''True'', Str ''True'']]\<rparr>"
  by code_simp

lemma truthtable_a_ifthen_b_fresh_partial:
  "map_sum id t_rows
     (truthtable \<lparr>s_toks = [Str ''OPAREN'', Str ''a'', Str ''IFTHEN'', Str ''b'', Str ''CPAREN''],
                  s_vars = [(''a'', ''False''), (''b'', ''False'')],
                  s_order = [''a'', ''b'']\<rparr> 1 3) =
     Inr [[Str ''False'', Str ''True'', Str ''True''],
          [Str ''True'', Str ''False'', Str ''False'']]"
  by code_simp

lemma truthtable_a_ifthen_b_second_partial:
  "map_sum id t_rows
     (truthtable \<lparr>s_toks = [Str ''OPAREN'', Str ''a'', Str ''IFTHEN'', Str ''b'', Str ''CPAREN''],
                  s_vars = [(''a'', ''True''), (''b'', ''True'')],
                  s_order = [''b'', ''a'']\<rparr> 1 3) =
     Inr [[Str ''False'', Str ''True'', Str ''False''],
          [Str ''True'', Str ''False'', Str ''True'']]"
  by code_simp

text \<open>
  C3. For \<open>s = statement("a->b")\<close>: the full-range call returns the four rows of the
  implication and leaves the order list of \<open>s\<close> reversed; the partial call
  \<open>truthtable(s, 1, 3)\<close> that follows on the same statement returns two rows that
  differ from rows 1 and 2 of the full table in their result column (F and T instead of
  T and F). Only a partial call on the statement as \<open>statement\<close> returned it gives rows
  1 and 2 of the full table.
\<close>

theorem C3_partial_rows_differ_after_full_call:
  "\<exists>st t. statement ''a->b'' = Some ([], Inr (OList3 st))
      \<and> truthtable st 0 (- 1) = Inr t
      \<and> take 2 (drop 1 (t_rows t)) = [[Str ''False'', Str ''True'', Str ''True''],
                                        [Str ''True'', Str ''False'', Str ''False'']]
      \<and> s_order (t_statement t) = rev (s_order st)
      \<and> map_sum id t_rows (truthtable (t_statement t) 1 3)
           = Inr [[Str ''False'', Str ''True'', Str ''False''],
                  [Str ''True'', Str ''False'', Str ''True'']]
      \<and> map_sum id t_rows (truthtable st 1 3)
           = Inr [[Str ''False'', Str ''True'', Str ''True''],
                  [Str ''True'', Str ''False'', Str ''False'']]"
  using statement_a_ifthen_b truthtable_a_ifthen_b_full truthtable_a_ifthen_b_fresh_partial
    truthtable_a_ifthen_b_second_partial
  by simp

section \<open>Double negation\<close>

lemma eval_not_not_v:
  "eval [(''v'', x)] [Str ''OPAREN'', Str ''NOT'', Str ''NOT'', Str ''v'', Str ''CPAREN'']
     = Inl KeyError"
  by (simp add: eval_def recursion_limit_def pop_to_oparen.simps eval_ltor_toks_def reduce_monos_def
      reduce_monos_from.simps py_index_def eval_mon_op_def dict_get_def)

text \<open>
  C6, as the claim states it: \<open>statement("!!v")\<close> prints \<open>Malformed Statement\<close> and
  returns \<open>[]\<close>, and evaluating its tokens under \<open>v = True\<close> or \<open>v = False\<close> raises
  KeyError (the first \<open>NOT\<close> takes the second \<open>NOT\<close> for its operand and looks it up in
  \<open>vars\<close>), so no truth value comes out.
\<close>

theorem C6_double_negation_counterexample:
  "statement ''!!v'' = Some ([''Malformed Statement''], Inr OEmpty)
   \<and> eval [(''v'', ''True'')]
        [Str ''OPAREN'', Str ''NOT'', Str ''NOT'', Str ''v'', Str ''CPAREN''] \<noteq> Inr (Str ''True'')
   \<and> eval [(''v'', ''False'')]
        [Str ''OPAREN'', Str ''NOT'', Str ''NOT'', Str ''v'', Str ''CPAREN''] \<noteq> Inr (Str ''False'')"
proof -
  have "statement ''!!v'' = Some ([''Malformed Statement''], Inr OEmpty)"
    by code_simp
  then show ?thesis by (simp add: eval_not_not_v)
qed

lemma statement_not_paren_not_v:
  "statement ''!(!v)'' =
     Some ([], Inr (OList3 \<lparr>s_toks = [Str ''OPAREN'', Str ''NOT'', Str ''OPAREN'', Str ''NOT'',
                                       Str ''v'', Str ''CPAREN'', Str ''CPAREN''],
                             s_vars = [(''v'', ''False'')], s_order = [''v'']\<rparr>))"
  by code_simp

lemma eval_not_paren_not_v:
  "eval (dict_set [(''v'', ''False'')] ''v'' (bool_str x))
     [Str ''OPAREN'', Str ''NOT'', Str ''OPAREN'', Str ''NOT'', Str ''v'', Str ''CPAREN'',
      Str ''CPAREN''] = Inr (truth x)"
  by (cases x)
     (simp_all add: eval_def recursion_limit_def pop_to_oparen.simps eval_ltor_toks_def reduce_monos_def
       reduce_bins_def reduce_monos_from.simps reduce_bins_from.simps in_bin_list_def
       bin_list_def py_index_def eval_mon_op_def dict_get_def dict_set_def bool_str_def
       truth_def)

text \<open>
  C6, amended. With the inner negation in parentheses double negation is the identity:
  \<open>statement("!(!v)")\<close> builds a statement, and for every boolean \<open>x\<close> evaluating it
  with \<open>vars['v']\<close> set to \<open>x\<close> yields \<open>x\<close>. The unparenthesised \<open>!!v\<close> is rejected
  as a malformed statement.
\<close>

theorem C6_double_negation_parenthesised:
  "\<exists>st. statement ''!(!v)'' = Some ([], Inr (OList3 st))
      \<and> (\<forall>x. eval (dict_set (s_vars st) ''v'' (bool_str x)) (s_toks st) = Inr (truth x))
      \<and> statement ''!!v'' = Some ([''Malformed Statement''], Inr OEmpty)"
proof -
  have "statement ''!!v'' = Some ([''Malformed Statement''], Inr OEmpty)"
    by code_simp
  with statement_not_paren_not_v eval_not_paren_not_v show ?thesis by simp
qed

section \<open>combine\<close>

lemma combine_a_b:
  "combine (OStr ''a'') (OStr ''b'') =
     Some ([], Inr (OList3 \<lparr>s_toks = [Str ''OPAREN'', Str ''OPAREN'', Str ''a'', Str ''CPAREN'',
                                       Str ''OR'', Str ''OPAREN'', Str ''b'', Str ''CPAREN'',
                                       Str ''CPAREN''],
                             s_vars = [(''a'', ''False''), (''b'', ''False'')],
                             s_order = [''a'', ''b'']\<rparr>,
                    OStr ''a''))"
  by code_simp

lemma eval_combine_a_b:
  "eval (dict_set (dict_set [(''a'', ''False''), (''b'', ''False'')] ''a'' (bool_str x)) ''b''
           (bool_str y))
     [Str ''OPAREN'', Str ''OPAREN'', Str ''a'', Str ''CPAREN'', Str ''OR'', Str ''OPAREN'',
      Str ''b'', Str ''CPAREN'', Str ''CPAREN''] = Inr (truth (x \<or> y))"
  by (cases x; cases y)
     (simp_all add: eval_def recursion_limit_def pop_to_oparen.simps eval_ltor_toks_def reduce_monos_def
       reduce_bins_def reduce_monos_from.simps reduce_bins_from.simps in_bin_list_def
       bin_list_def py_index_def py_setitem_def py_del_def eval_bin_op_def eval_or_op_def
       dict_get_def dict_set_def bool_str_def truth_def)

lemma eval_single_name_b:
  "eval vars [Str ''OPAREN'', Str ''b'', Str ''CPAREN''] = Inr (Str ''b'')"
  by (simp add: eval_def recursion_limit_def pop_to_oparen.simps eval_ltor_toks_def reduce_monos_def
      reduce_bins_def reduce_monos_from.simps reduce_bins_from.simps in_bin_list_def
      bin_list_def py_index_def)

lemma statement_b:
  "statement ''b'' =
     Some ([], Inr (OList3 \<lparr>s_toks = [Str ''OPAREN'', Str ''b'', Str ''CPAREN''],
                             s_vars = [(''b'', ''False'')], s_order = [''b'']\<rparr>))"
  by code_simp

text \<open>
  C7. \<open>combine("a", "b")\<close> parses the text \<open>(a)|(b)\<close>, and evaluating the statement it
  returns with \<open>vars['a'] = x\<close>, \<open>vars['b'] = y\<close> yields the disjunction of \<open>x\<close> and
  \<open>y\<close>. The other side of the claimed equation is not a truth value: evaluating the
  statements of \<open>a\<close> and of \<open>b\<close> yields the names \<open>'a'\<close> and \<open>'b'\<close>, under every
  assignment.
\<close>

theorem C7_combine_or_against_operand_names:
  "\<exists>st sa sb.
      combine (OStr ''a'') (OStr ''b'') = Some ([], Inr (OList3 st, OStr ''a''))
      \<and> (\<forall>x y. eval (dict_set (dict_set (s_vars st) ''a'' (bool_str x)) ''b'' (bool_str y))
                  (s_toks st) = Inr (truth (x \<or> y)))
      \<and> statement ''a'' = Some ([], Inr (OList3 sa))
      \<and> statement ''b'' = Some ([], Inr (OList3 sb))
      \<and> (\<forall>vars. eval vars (s_toks sa) = Inr (Str ''a'') \<and> eval vars (s_toks sb) = Inr (Str ''b''))"
  using combine_a_b eval_combine_a_b statement_a statement_b eval_single_name eval_single_name_b
  by simp

lemma combine_statements_a_b:
  "combine (OList3 \<lparr>s_toks = [Str ''OPAREN'', Str ''a'', Str ''CPAREN''],
                     s_vars = [(''a'', ''False'')], s_order = [''a'']\<rparr>)
           (OList3 \<lparr>s_toks = [Str ''OPAREN'', Str ''b'', Str ''CPAREN''],
                     s_vars = [(''b'', ''False'')], s_order = [''b'']\<rparr>) =
     Some ([], Inr (OList3 \<lparr>s_toks = [Str ''OPAREN'', Str ''OPAREN'', Str ''a'', Str ''CPAREN'',
                                       Str ''OR'', Str ''OPAREN'', Str ''b'', Str ''CPAREN'',
                                       Str ''CPAREN''],
                             s_vars = [(''a'', ''False''), (''b'', ''False'')],
                             s_order = [''a'', ''b'']\<rparr>,
                    OList3 \<lparr>s_toks = [Str ''OPAREN'', Str ''a'', Str ''CPAREN''],
                             s_vars = [(''a'', ''False''), (''b'', ''False'')],
                             s_order = [''a'', ''b'']\<rparr>))"
  by code_simp

text \<open>
  C10. For \<open>x = statement("a")\<close> and \<open>y = statement("b")\<close>, \<open>combine(x, y)\<close> changes
  \<open>x\<close>: the dictionary of the result is the dictionary of \<open>x\<close>, which now holds \<open>b\<close>
  as well, and \<open>b\<close> has been appended to the order list of \<open>x\<close>.
\<close>

theorem C10_combine_mutates_first_statement:
  "\<exists>x y z x'.
      statement ''a'' = Some ([], Inr (OList3 x))
      \<and> statement ''b'' = Some ([], Inr (OList3 y))
      \<and> combine (OList3 x) (OList3 y) = Some ([], Inr (OList3 z, OList3 x'))
      \<and> s_vars x = [(''a'', ''False'')] \<and> s_order x = [''a'']
      \<and> s_vars x' = [(''a'', ''False''), (''b'', ''False'')] \<and> s_order x' = [''a'', ''b'']
      \<and> s_vars z = s_vars x'"
  using statement_a statement_b combine_statements_a_b by simp

section \<open>The left-to-right law for runs of binary operators\<close>

text \<open>
  The truth value \<open>eval_bin_op\<close> works with for an operand: the literals \<open>'False'\<close> and
  \<open>'True'\<close> stand for themselves, any other element is looked up in \<open>vars\<close>.
\<close>

definition operand_value :: "dict \<Rightarrow> pyval \<Rightarrow> bool option" where
  "operand_value vars a =
     (if a = Str ''False'' then Some False
      else if a = Str ''True'' then Some True
      else (case dict_get vars a of
              Inl e \<Rightarrow> None
            | Inr v \<Rightarrow> (if v = ''True'' then Some True
                        else if v = ''False'' then Some False else None)))"








lemma truth_operand [simp]:
  "\<not> in_bin_list (truth b)" "truth b \<noteq> Str ''NOT''" "operand_value vars (truth b) = Some b"
  by (auto simp: truth_def bool_str_def in_bin_list_def bin_list_def operand_value_def)







section \<open>A run longer than the recursion limit\<close>























end
